theory Spec2Isabelle
  imports Complex_Main "HOL-Library.Sublist" "HOL-Library.Multiset"
begin

section \<open>Strings: the one-shot \<open>String.prototype.replace\<close>\<close>

text \<open>
  \<^verbatim>\<open>s.replace(pattern, replacement)\<close> with a string pattern replaces the first
  occurrence of the pattern, scanning from the left, and leaves the rest of the string as
  it is; a string without the pattern is returned unchanged. Strings are lists of code
  units, so the function is stated for lists of anything. (The replacement used by the
  program is the empty string, which holds no \<open>$\<close> pattern.) File names are taken as
  strings of 8-bit characters; the search treats every code unit alike.
\<close>

fun replace :: "'a list \<Rightarrow> 'a list \<Rightarrow> 'a list \<Rightarrow> 'a list" where
  "replace pat rep [] = (if pat = [] then rep else [])"
| "replace pat rep (c # cs) =
     (if prefix pat (c # cs) then rep @ drop (length pat) (c # cs)
      else c # replace pat rep cs)"

text \<open>\<^verbatim>\<open>s.includes(pattern)\<close>: the pattern occurs somewhere in the string.\<close>

fun includes_str :: "'a list \<Rightarrow> 'a list \<Rightarrow> bool" where
  "includes_str pat [] = (pat = [])"
| "includes_str pat (c # cs) = (prefix pat (c # cs) \<or> includes_str pat cs)"

text \<open>
  The slug of a content file, as both call sites derive it
  (\<^verbatim>\<open>filename.replace(".md", "")\<close> in \<^verbatim>\<open>pages/index.tsx\<close> and in
  \<^verbatim>\<open>getStaticPaths\<close> of \<^verbatim>\<open>pages/posts/[slug].tsx\<close>).
\<close>

definition slug_of :: "string \<Rightarrow> string" where
  "slug_of filename = replace ''.md'' '''' filename"

section \<open>The markdown renderer (\<^verbatim>\<open>libs/md2html-parser\<close>)\<close>

text \<open>
  The renderer is a chain of \<^verbatim>\<open>.use(...)\<close> calls on a fresh \<^verbatim>\<open>unified()\<close>
  processor, run once by \<^verbatim>\<open>processSync\<close>. The plugins are the packages the file
  imports, under the names it imports them by. A processor records the settings it was
  given and the plugins attached to it, with their options, in the order of the calls.
  What the plugins do to a document is the packages' business: running a processor is a
  parameter of the model.
\<close>

datatype plugin =
  remark | gfm | math | remark2rehype | prism | figure | katex | raw | minify | stringify

type_synonym options = "(string \<times> bool) list"

datatype usable = Preset options | Plugin plugin options

record processor =
  settings :: options
  attachers :: "(plugin \<times> options) list"

definition unified :: processor where
  "unified = \<lparr>settings = [], attachers = []\<rparr>"

fun use :: "processor \<Rightarrow> usable \<Rightarrow> processor" where
  "use p (Preset s) = p\<lparr>settings := settings p @ s\<rparr>"
| "use p (Plugin pl opts) = p\<lparr>attachers := attachers p @ [(pl, opts)]\<rparr>"

text \<open>The processor that \<^verbatim>\<open>parse\<close> builds, call by call.\<close>

definition parse_processor :: processor where
  "parse_processor =
     use (use (use (use (use (use (use (use (use (use (use unified
       (Preset [(''position'', False)]))
       (Plugin remark []))
       (Plugin gfm []))
       (Plugin math []))
       (Plugin remark2rehype []))
       (Plugin prism []))
       (Plugin figure []))
       (Plugin katex [(''strict'', False), (''colorIsTextColor'', True)]))
       (Plugin raw []))
       (Plugin minify []))
       (Plugin stringify [])"

text \<open>
  \<^verbatim>\<open>parse(md)\<close>: the processor is run on the markdown text and the resulting file is
  turned into a string. \<open>run\<close> stands for \<^verbatim>\<open>processSync(md).toString()\<close>, which
  returns the serialized document or throws.
\<close>

definition parse :: "(processor \<Rightarrow> string \<Rightarrow> 'e + string) \<Rightarrow> string \<Rightarrow> 'e + string" where
  "parse run md = run parse_processor md"

text \<open>
  The chain as the specification words it: parse markdown, GFM extensions, math-expression
  extension, conversion to an HTML-like tree, syntax highlighting, figures, inlining of raw
  HTML, whitespace collapsing, serialization.
\<close>

definition spec_pipeline :: "plugin list" where
  "spec_pipeline = [remark, gfm, math, remark2rehype, prism, figure, raw, minify, stringify]"

section \<open>The content loaders (\<^verbatim>\<open>pages/index.tsx\<close>, \<^verbatim>\<open>pages/posts/[slug].tsx\<close>)\<close>

text \<open>
  \<open>ContentMetadata\<close>. The five front-matter fields hold whatever the front-matter
  parser produced under that key; \<open>None\<close> is JavaScript's \<open>undefined\<close>, the result of
  reading a key the object does not have.
\<close>

record 'v ContentMetadata =
  title :: "'v option"
  categories :: "'v option"
  dateCreated :: "'v option"
  intro :: "'v option"
  useLatex :: "'v option"
  slug :: string
  readTime :: string

record 'v ParsedMarkdown =
  metadata :: "'v ContentMetadata"
  htmlString :: string

text \<open>
  What the loaders call and do not define: the working directory and the configured
  content directory name, \<^verbatim>\<open>path.join\<close>, the two file-system reads (each returns or
  throws), \<^verbatim>\<open>gray-matter\<close> (returns the front-matter object and the body, or throws),
  \<^verbatim>\<open>reading-time\<close> (of which only the \<open>text\<close> field is used) and the run of a
  unified processor.
\<close>

record ('e, 'v) env =
  cwd :: string
  CONTENTS_DIRNAME :: string
  join :: "string \<Rightarrow> string \<Rightarrow> string"
  readdirSync :: "string \<Rightarrow> 'e + string list"
  readFileSync :: "string \<Rightarrow> 'e + string"
  grayMatter :: "string \<Rightarrow> 'e + (string \<rightharpoonup> 'v) \<times> string"
  countReadingTime :: "string \<Rightarrow> string"
  processSync :: "processor \<Rightarrow> string \<Rightarrow> 'e + string"

text \<open>\<^verbatim>\<open>xs.map(f)\<close> with a callback that may throw: the first throw ends the map.\<close>

fun map_throw :: "('a \<Rightarrow> 'e + 'b) \<Rightarrow> 'a list \<Rightarrow> 'e + 'b list" where
  "map_throw f [] = Inr []"
| "map_throw f (x # xs) =
     (case f x of
        Inl e \<Rightarrow> Inl e
      | Inr y \<Rightarrow> (case map_throw f xs of Inl e \<Rightarrow> Inl e | Inr ys \<Rightarrow> Inr (y # ys)))"

text \<open>
  The callback of the index page's loader: one file name to one \<open>ContentMetadata\<close>.
  The loaders below return what the source wraps into \<^verbatim>\<open>{ props: { ... } }\<close>: the
  \<open>data\<close> of the index page, the \<open>parsedMarkdown\<close> of the per-post page.
\<close>

definition index_entry :: "('e, 'v) env \<Rightarrow> string \<Rightarrow> string \<Rightarrow> 'e + 'v ContentMetadata" where
  "index_entry E contentDir filename =
     (case readFileSync E (join E contentDir filename) of
        Inl e \<Rightarrow> Inl e
      | Inr rawMarkdown \<Rightarrow>
          (case grayMatter E rawMarkdown of
             Inl e \<Rightarrow> Inl e
           | Inr (markdownMetadata, content) \<Rightarrow>
               Inr \<lparr>title = markdownMetadata ''title'',
                    categories = markdownMetadata ''categories'',
                    dateCreated = markdownMetadata ''dateCreated'',
                    intro = markdownMetadata ''intro'',
                    useLatex = markdownMetadata ''useLatex'',
                    slug = slug_of filename,
                    readTime = countReadingTime E content\<rparr>))"

definition getStaticProps_index :: "('e, 'v) env \<Rightarrow> 'e + 'v ContentMetadata list" where
  "getStaticProps_index E =
     (let contentDir = join E (cwd E) (CONTENTS_DIRNAME E) in
      case readdirSync E contentDir of
        Inl e \<Rightarrow> Inl e
      | Inr filenames \<Rightarrow> map_throw (index_entry E contentDir) filenames)"

text \<open>The per-post page: its routes, and its loader for one route.\<close>

definition getStaticPaths :: "('e, 'v) env \<Rightarrow> 'e + string list" where
  "getStaticPaths E =
     (let basePath = join E (cwd E) (CONTENTS_DIRNAME E) in
      case readdirSync E basePath of
        Inl e \<Rightarrow> Inl e
      | Inr filenames \<Rightarrow> Inr (map slug_of filenames))"

definition getStaticProps_slug :: "('e, 'v) env \<Rightarrow> string \<Rightarrow> 'e + 'v ParsedMarkdown" where
  "getStaticProps_slug E slug0 =
     (let basePath = join E (cwd E) (CONTENTS_DIRNAME E) in
      case readFileSync E (join E basePath (slug0 @ ''.md'')) of
        Inl e \<Rightarrow> Inl e
      | Inr rawMarkdown \<Rightarrow>
          (case grayMatter E rawMarkdown of
             Inl e \<Rightarrow> Inl e
           | Inr (markdownMetadata, content) \<Rightarrow>
               (let metadata0 =
                      \<lparr>title = markdownMetadata ''title'',
                       categories = markdownMetadata ''categories'',
                       dateCreated = markdownMetadata ''dateCreated'',
                       intro = markdownMetadata ''intro'',
                       useLatex = markdownMetadata ''useLatex'',
                       slug = slug0,
                       readTime = countReadingTime E content\<rparr>
                in case parse (processSync E) content of
                     Inl e \<Rightarrow> Inl e
                   | Inr html \<Rightarrow> Inr \<lparr>metadata = metadata0, htmlString = html\<rparr>)))"

section \<open>The repository-statistics handlers (\<^verbatim>\<open>pages/api/github\<close>)\<close>

text \<open>
  A repository as the upstream API lists it, cut down to the fields the handlers read. The
  language of a repository without code is JSON \<open>null\<close>, here \<open>None\<close>.

  JavaScript numbers are IEEE doubles. The handlers only add them, divide 100 by a count
  and compare them, so the model leaves the number type open: any linearly ordered type
  with a zero, an addition and a \<open>100 / n\<close>. Doubles other than NaN are one such type
  (the sign of \<open>b - a\<close> is their order), exact fractions are another. The division
  \<open>100 / total\<close> is only evaluated inside the callback of the \<^verbatim>\<open>reduce\<close>, that is
  when there is at least one language, so \<open>total\<close> is not zero there.
\<close>

record 'n GithubRepository =
  fork :: bool
  language :: "string option"
  stargazers_count :: 'n

record 'b response =
  headers :: "(string \<times> string) list"
  status :: nat
  body :: 'b

definition cache_control :: "(string \<times> string) list" where
  "cache_control = [(''Cache-Control'', ''public, s-maxage=1200, stale-while-revalidate=600'')]"

definition isExcludedLanguage :: "string option \<Rightarrow> bool" where
  "isExcludedLanguage l \<longleftrightarrow>
     l = Some ''HTML'' \<or> l = Some ''CSS'' \<or> l = Some ''Jupyter Notebook''"

text \<open>The property key a value is turned into when it indexes an object.\<close>

fun property_key :: "string option \<Rightarrow> string" where
  "property_key None = ''null''"
| "property_key (Some s) = s"

subsection \<open>The accumulator object\<close>

text \<open>
  The accumulator of the \<^verbatim>\<open>reduce\<close> starts as \<^verbatim>\<open>{}\<close>, an object whose prototype is
  \<^verbatim>\<open>Object.prototype\<close>. Its own properties are an association list in the order of
  their creation. What an own property can hold here is a number, or a string that came
  out of \<^verbatim>\<open>+=\<close> on something that is not a number:
  \<^item> \<open>NativeText f qs\<close> is the source text of the native function that
    \<^verbatim>\<open>Object.prototype\<close> holds under the name \<open>f\<close>, followed by the decimal forms of
    the numbers \<open>qs\<close> (such a text begins with \<open>function\<close>);
  \<^item> \<open>ObjectText qs\<close> is \<^verbatim>\<open>[object Object]\<close> followed by the decimal forms of
    \<open>qs\<close>.
  Neither string is a numeric literal: converted to a number, each is NaN.
\<close>

datatype 'n pval = Num 'n | NativeText string "'n list" | ObjectText "'n list"

text \<open>
  What reading a property gives when it is not \<open>undefined\<close>: an own value, a function
  inherited from \<^verbatim>\<open>Object.prototype\<close>, or, for \<^verbatim>\<open>__proto__\<close>, the prototype itself.
\<close>

datatype 'n looked = Own "'n pval" | Inherited string | ObjectPrototype

definition inherited_functions :: "string list" where
  "inherited_functions =
     [''constructor'', ''__defineGetter__'', ''__defineSetter__'', ''hasOwnProperty'',
      ''__lookupGetter__'', ''__lookupSetter__'', ''isPrototypeOf'', ''propertyIsEnumerable'',
      ''toString'', ''valueOf'', ''toLocaleString'']"

text \<open>\<^verbatim>\<open>obj[key]\<close>; \<open>None\<close> is \<open>undefined\<close>.\<close>

definition get_property :: "(string \<times> 'n pval) list \<Rightarrow> string \<Rightarrow> 'n looked option" where
  "get_property obj key =
     (case map_of obj key of
        Some v \<Rightarrow> Some (Own v)
      | None \<Rightarrow>
          if key = ''__proto__'' then Some ObjectPrototype
          else if key \<in> set inherited_functions then Some (Inherited key)
          else None)"

text \<open>
  \<^verbatim>\<open>obj[key] = v\<close> for a number or a string \<open>v\<close>: an own property is overwritten in
  place, a new one is created last (also over an inherited function, which is writable),
  and the setter of \<^verbatim>\<open>__proto__\<close> ignores a value that is neither an object nor
  \<open>null\<close>.
\<close>

definition set_property ::
  "(string \<times> 'n pval) list \<Rightarrow> string \<Rightarrow> 'n pval \<Rightarrow> (string \<times> 'n pval) list" where
  "set_property obj key v =
     (if key = ''__proto__'' then obj
      else if map_of obj key = None then obj @ [(key, v)]
      else map (\<lambda>(k, w). if k = key then (k, v) else (k, w)) obj)"

text \<open>
  \<^verbatim>\<open>v + q\<close> for a number \<open>q\<close>: the sum of two numbers, and otherwise the
  concatenation of \<open>v\<close> as a string with the decimal form of \<open>q\<close>.
\<close>

fun plus_number :: "('n \<Rightarrow> 'n \<Rightarrow> 'n) \<Rightarrow> 'n looked \<Rightarrow> 'n \<Rightarrow> 'n pval" where
  "plus_number add (Own (Num x)) q = Num (add x q)"
| "plus_number add (Own (NativeText f qs)) q = NativeText f (qs @ [q])"
| "plus_number add (Own (ObjectText qs)) q = ObjectText (qs @ [q])"
| "plus_number add (Inherited f) q = NativeText f [q]"
| "plus_number add ObjectPrototype q = ObjectText [q]"

text \<open>
  \<^verbatim>\<open>Object.keys(obj).map(key => f(key, obj[key]))\<close> visits the own properties in the
  order of \<^verbatim>\<open>Object.keys\<close>: first the keys that are array indices (canonical decimal
  numerals below 4294967295) in ascending numeric order, then the other keys in the
  order of their creation.
\<close>

definition is_digit :: "char \<Rightarrow> bool" where
  "is_digit c \<longleftrightarrow> c \<in> set ''0123456789''"

definition digit_value :: "char \<Rightarrow> int" where
  "digit_value c = int (length (takeWhile (\<lambda>d. d \<noteq> c) ''0123456789''))"

definition decimal :: "string \<Rightarrow> int" where
  "decimal s = foldl (\<lambda>n c. 10 * n + digit_value c) 0 s"

definition array_index :: "string \<Rightarrow> int option" where
  "array_index s =
     (if s \<noteq> [] \<and> list_all is_digit s \<and> (s = ''0'' \<or> take 1 s \<noteq> ''0'') \<and>
         decimal s < 4294967295
      then Some (decimal s) else None)"

definition object_entries :: "(string \<times> 'v) list \<Rightarrow> (string \<times> 'v) list" where
  "object_entries obj =
     sort_key (\<lambda>(k, v). case array_index k of Some i \<Rightarrow> i | None \<Rightarrow> 0)
       (filter (\<lambda>(k, v). array_index k \<noteq> None) obj)
     @ filter (\<lambda>(k, v). array_index k = None) obj"

subsection \<open>The engine\<close>

text \<open>
  An entry of the language statistics. \<^verbatim>\<open>Array.prototype.sort\<close> is the engine's: the
  model takes it as a parameter, next to the number operations. A comparator gives a sign
  (a NaN result counts as zero, as the standard has it).
\<close>

record 'n stat =
  name :: string
  persentase :: "'n pval"

datatype sign = Negative | Zero | Positive

record 'n engine =
  num_zero :: 'n
  num_add :: "'n \<Rightarrow> 'n \<Rightarrow> 'n"
  hundred_over :: "nat \<Rightarrow> 'n"
  array_sort :: "('n stat \<Rightarrow> 'n stat \<Rightarrow> sign) \<Rightarrow> 'n stat list \<Rightarrow> 'n stat list"

text \<open>
  What the standard promises of \<^verbatim>\<open>sort\<close>: the result holds the same elements, and if
  the comparator is a consistent comparison function for them, no element stands before
  one that the comparator puts before it. For a comparator that is not consistent the
  order is left to the engine.
\<close>

definition consistent :: "('a \<Rightarrow> 'a \<Rightarrow> sign) \<Rightarrow> 'a set \<Rightarrow> bool" where
  "consistent cmp S \<longleftrightarrow>
     (\<forall>a \<in> S. cmp a a = Zero) \<and>
     (\<forall>a \<in> S. \<forall>b \<in> S. cmp a b = Zero \<longrightarrow> cmp b a = Zero) \<and>
     (\<forall>a \<in> S. \<forall>b \<in> S. \<forall>c \<in> S. cmp a b = Zero \<and> cmp b c = Zero \<longrightarrow> cmp a c = Zero) \<and>
     (\<forall>a \<in> S. \<forall>b \<in> S. \<forall>c \<in> S.
        cmp a b = Negative \<and> cmp b c = Negative \<longrightarrow> cmp a c = Negative) \<and>
     (\<forall>a \<in> S. \<forall>b \<in> S. \<forall>c \<in> S.
        cmp a b = Positive \<and> cmp b c = Positive \<longrightarrow> cmp a c = Positive)"

definition conforming :: "(('a \<Rightarrow> 'a \<Rightarrow> sign) \<Rightarrow> 'a list \<Rightarrow> 'a list) \<Rightarrow> bool" where
  "conforming srt \<longleftrightarrow>
     (\<forall>cmp xs. mset (srt cmp xs) = mset xs \<and>
        (consistent cmp (set xs) \<longrightarrow> sorted_wrt (\<lambda>a b. cmp b a \<noteq> Negative) (srt cmp xs)))"

text \<open>One such sort: the stable insertion sort.\<close>

fun insert_by :: "('a \<Rightarrow> 'a \<Rightarrow> sign) \<Rightarrow> 'a \<Rightarrow> 'a list \<Rightarrow> 'a list" where
  "insert_by cmp x [] = [x]"
| "insert_by cmp x (y # ys) =
     (if cmp x y = Negative then x # y # ys else y # insert_by cmp x ys)"

definition insertion_sort :: "('a \<Rightarrow> 'a \<Rightarrow> sign) \<Rightarrow> 'a list \<Rightarrow> 'a list" where
  "insertion_sort cmp xs = foldl (\<lambda>sorted x. insert_by cmp x sorted) [] xs"

subsection \<open>The handlers\<close>

text \<open>
  The callback of the \<^verbatim>\<open>reduce\<close> that counts languages: if
  \<^verbatim>\<open>accumulator[language]\<close> is \<open>undefined\<close> it is set to 0, and then
  \<^verbatim>\<open>100 / total\<close> is added to it with \<^verbatim>\<open>+=\<close>.
\<close>

definition count_language ::
  "'n engine \<Rightarrow> nat \<Rightarrow> (string \<times> 'n pval) list \<Rightarrow> string option \<Rightarrow> (string \<times> 'n pval) list" where
  "count_language A total_n accumulator l =
     (let key = property_key l;
          accumulator1 =
            (case get_property accumulator key of
               None \<Rightarrow> set_property accumulator key (Num (num_zero A))
             | Some v \<Rightarrow> accumulator)
      in case get_property accumulator1 key of
           None \<Rightarrow> accumulator1
         | Some v \<Rightarrow>
             set_property accumulator1 key (plus_number (num_add A) v (hundred_over A total_n)))"

text \<open>
  The comparator \<^verbatim>\<open>(a, b) => b.persentase - a.persentase\<close>: the sign of the
  difference of two numbers, and zero when one of the two is a string (the difference
  is NaN then).
\<close>

definition compare_persentase :: "('n::linorder) stat \<Rightarrow> 'n stat \<Rightarrow> sign" where
  "compare_persentase a b =
     (case (persentase b, persentase a) of
        (Num y, Num x) \<Rightarrow> if y < x then Negative else if x < y then Positive else Zero
      | _ \<Rightarrow> Zero)"

definition languages_of :: "'n GithubRepository list \<Rightarrow> string option list" where
  "languages_of repositories =
     map language
       (filter (\<lambda>repository. \<not> fork repository \<and> \<not> isExcludedLanguage (language repository))
          repositories)"

text \<open>
  \<^verbatim>\<open>Object.keys(persentase).map((key) => ({ name: key, persentase: persentase[key] }))\<close>.
\<close>

definition stats_of :: "(string \<times> 'n pval) list \<Rightarrow> 'n stat list" where
  "stats_of obj = map (\<lambda>(key, v). \<lparr>name = key, persentase = v\<rparr>) (object_entries obj)"

definition handler_languages ::
  "('n::linorder) engine \<Rightarrow> 'n GithubRepository list \<Rightarrow> 'n stat list response" where
  "handler_languages A repositories =
     (let languages = languages_of repositories;
          total_n = length languages;
          persentase_obj = foldl (count_language A total_n) [] languages;
          stats = array_sort A compare_persentase (stats_of persentase_obj)
      in \<lparr>headers = cache_control, status = 200, body = stats\<rparr>)"

definition handler_stars :: "'n engine \<Rightarrow> 'n GithubRepository list \<Rightarrow> 'n response" where
  "handler_stars A repositories =
     (let stars =
            foldl (\<lambda>accumulator repository.
                     if fork repository then accumulator
                     else num_add A accumulator (stargazers_count repository))
              (num_zero A) repositories
      in \<lparr>headers = cache_control, status = 200, body = stars\<rparr>)"

subsection \<open>Notions for the properties of the statistics\<close>

text \<open>
  \<open>x\<close> is at least \<open>y\<close>, as numbers: JavaScript's \<^verbatim>\<open>x >= y\<close>, which is false when
  one of the two is not a number.
\<close>

definition at_least :: "'n::linorder pval \<Rightarrow> 'n pval \<Rightarrow> bool" where
  "at_least x y = (case (x, y) of (Num a, Num b) \<Rightarrow> b \<le> a | _ \<Rightarrow> False)"

text \<open>A key that \<^verbatim>\<open>{}\<close> does not inherit.\<close>

definition plain_key :: "string \<Rightarrow> bool" where
  "plain_key key \<longleftrightarrow> key \<noteq> ''__proto__'' \<and> key \<notin> set inherited_functions"

text \<open>
  What the \<^verbatim>\<open>reduce\<close> adds up for one key: starting from \<open>v\<close>, one
  \<open>100 / total\<close> for every language of the list that has the key.
\<close>

definition share :: "'n engine \<Rightarrow> nat \<Rightarrow> 'n \<Rightarrow> string option list \<Rightarrow> string \<Rightarrow> 'n" where
  "share A n v ls k =
     foldl (\<lambda>a l. if property_key l = k then num_add A a (hundred_over A n) else a) v ls"

definition start :: "'n engine \<Rightarrow> (string \<times> 'n pval) list \<Rightarrow> string \<Rightarrow> 'n" where
  "start A acc k = (case map_of acc k of Some (Num x) \<Rightarrow> x | _ \<Rightarrow> num_zero A)"

definition all_numbers :: "(string \<times> 'n pval) list \<Rightarrow> bool" where
  "all_numbers acc \<longleftrightarrow> (\<forall>k v. map_of acc k = Some v \<longrightarrow> (\<exists>x. v = Num x))"

text \<open>Exact arithmetic and the stable insertion sort, one instance of the engine.\<close>

definition exact :: "real engine" where
  "exact = \<lparr>num_zero = 0, num_add = (+), hundred_over = (\<lambda>n. 100 / real n),
            array_sort = insertion_sort\<rparr>"

section \<open>Concrete inputs\<close>

text \<open>
  Front-matter values, as a YAML parser produces them, and the front-matter schema as far
  as the specification types it: \<open>categories\<close> is a list, \<open>useLatex\<close> is a boolean.
\<close>

datatype yaml = YNull | YBool bool | YNum int | YStr string | YSeq "yaml list"

fun well_formed :: "string \<Rightarrow> yaml \<Rightarrow> bool" where
  "well_formed k (YBool b) = (k \<noteq> ''categories'')"
| "well_formed k (YSeq vs) = (k \<noteq> ''useLatex'')"
| "well_formed k v = (k \<noteq> ''categories'' \<and> k \<noteq> ''useLatex'')"

datatype fs_error = ENOENT string | YAMLException

text \<open>
  A content directory held in memory: the files of \<^verbatim>\<open>/app/contents\<close> in directory
  order, each with its text (\<open>None\<close>: listed but unreadable), and the front-matter parser
  as a table from a file's text to what it is parsed into (a text that is not in the
  table does not parse). The reading time and the rendered body are fixed texts.
\<close>

definition memory_env ::
  "(string \<times> string option) list \<Rightarrow> (string \<times> (string \<times> yaml) list \<times> string) list
     \<Rightarrow> (fs_error, yaml) env" where
  "memory_env files matter =
     \<lparr>cwd = ''/app'',
      CONTENTS_DIRNAME = ''contents'',
      join = (\<lambda>a b. a @ ''/'' @ b),
      readdirSync = (\<lambda>d. if d = ''/app/contents'' then Inr (map fst files) else Inl (ENOENT d)),
      readFileSync =
        (\<lambda>p. case map_of (map (\<lambda>(f, c). (''/app/contents/'' @ f, c)) files) p of
               Some (Some text) \<Rightarrow> Inr text
             | _ \<Rightarrow> Inl (ENOENT p)),
      grayMatter =
        (\<lambda>text. case map_of matter text of
                  Some (pairs, content) \<Rightarrow> Inr (map_of pairs, content)
                | None \<Rightarrow> Inl YAMLException),
      countReadingTime = (\<lambda>content. ''1 min read''),
      processSync = (\<lambda>p md. Inr ''<p>html</p>'')\<rparr>"

text \<open>One well-formed post, \<^verbatim>\<open>hello.md\<close>, without an \<open>intro\<close>.\<close>

definition hello_fields :: "(string \<times> yaml) list" where
  "hello_fields =
     [(''title'', YStr ''Hello''), (''dateCreated'', YStr ''13 Mar 2021''),
      (''useLatex'', YBool False), (''categories'', YSeq [YStr ''Go''])]"

definition hello_env :: "(fs_error, yaml) env" where
  "hello_env =
     memory_env [(''hello.md'', Some ''hello-text'')] [(''hello-text'', hello_fields, ''Hello!'')]"

text \<open>The same post next to a file that is listed but cannot be read.\<close>

definition broken_env :: "(fs_error, yaml) env" where
  "broken_env =
     memory_env [(''hello.md'', Some ''hello-text''), (''gone.md'', None)]
       [(''hello-text'', hello_fields, ''Hello!'')]"

text \<open>A post whose \<open>useLatex\<close> is the string \<open>yes\<close> instead of a boolean.\<close>

definition malformed_env :: "(fs_error, yaml) env" where
  "malformed_env =
     memory_env [(''latex.md'', Some ''latex-text'')]
       [(''latex-text'', [(''title'', YStr ''Proof''), (''useLatex'', YStr ''yes'')], ''x = y'')]"

text \<open>A post whose file name holds \<open>.md\<close> before its extension.\<close>

definition inner_md_env :: "(fs_error, yaml) env" where
  "inner_md_env =
     memory_env [(''x.mdy.md'', Some ''x-text'')] [(''x-text'', [(''title'', YStr ''X'')], ''x'')]"

text \<open>Repositories whose languages are not counted in the order of their shares.\<close>

definition demo_repositories :: "real GithubRepository list" where
  "demo_repositories =
     [\<lparr>fork = False, language = Some ''TypeScript'', stargazers_count = 2\<rparr>,
      \<lparr>fork = True, language = Some ''C'', stargazers_count = 30\<rparr>,
      \<lparr>fork = False, language = Some ''HTML'', stargazers_count = 1\<rparr>,
      \<lparr>fork = False, language = None, stargazers_count = 0\<rparr>,
      \<lparr>fork = False, language = Some ''Go'', stargazers_count = 3\<rparr>,
      \<lparr>fork = False, language = Some ''Go'', stargazers_count = 5\<rparr>]"


section \<open>Properties of the slug derivation\<close>

lemma replace_absent: "\<not> includes_str pat s \<Longrightarrow> replace pat rep s = s"
  by (induction s) auto

lemma replace_length: "includes_str pat s \<Longrightarrow> length (replace pat [] s) + length pat = length s"
proof (induction s)
  case Nil then show ?case by simp
next
  case (Cons c cs)
  show ?case
  proof (cases "prefix pat (c # cs)")
    case True
    then have "length pat \<le> length (c # cs)" by (rule prefix_length_le)
    with True show ?thesis by simp
  next
    case False
    with Cons show ?thesis by simp
  qed
qed

lemma slug_idem_iff: "slug_of (slug_of f) = slug_of f \<longleftrightarrow> \<not> includes_str ''.md'' (slug_of f)"
proof
  assume eq: "slug_of (slug_of f) = slug_of f"
  show "\<not> includes_str ''.md'' (slug_of f)"
  proof
    assume "includes_str ''.md'' (slug_of f)"
    from replace_length [OF this] eq show False by (simp add: slug_of_def)
  qed
next
  assume "\<not> includes_str ''.md'' (slug_of f)"
  then show "slug_of (slug_of f) = slug_of f" by (simp add: slug_of_def replace_absent)
qed

lemma replace_suffix: "\<not> includes_str ''.md'' base \<Longrightarrow> replace ''.md'' [] (base @ ''.md'') = base"
proof (induction base)
  case Nil then show ?case by simp
next
  case (Cons c cs)
  then have np: "\<not> prefix ''.md'' (c # cs)" and ni: "\<not> includes_str ''.md'' cs" by simp_all
  have npref: "\<not> prefix ''.md'' (c # (cs @ ''.md''))"
  proof
    assume p: "prefix ''.md'' (c # (cs @ ''.md''))"
    show False
    proof (cases cs)
      case Nil with p show ?thesis by simp
    next
      case (Cons d ds)
      note c1 = this
      show ?thesis
      proof (cases ds)
        case Nil with p c1 show ?thesis by simp
      next
        case (Cons e es)
        with p c1 np show ?thesis by simp
      qed
    qed
  qed
  have "replace ''.md'' [] (c # (cs @ ''.md'')) = c # replace ''.md'' [] (cs @ ''.md'')"
    by (subst replace.simps(2)) (simp only: npref if_False)
  with Cons.IH [OF ni] show ?case by (simp only: append_Cons)
qed

section \<open>Properties of the loaders\<close>

lemma map_throw_Inl: "x \<in> set xs \<Longrightarrow> f x = Inl e \<Longrightarrow> \<exists>e'. map_throw f xs = Inl e'"
  by (induction xs) (auto split: sum.splits)

lemma map_throw_Inr: "(\<And>x. x \<in> set xs \<Longrightarrow> f x = Inr (g x)) \<Longrightarrow> map_throw f xs = Inr (map g xs)"
  by (induction xs) auto

lemma index_entry_slug: "index_entry E d f = Inr m \<Longrightarrow> slug m = slug_of f"
  by (auto simp: index_entry_def split: sum.splits prod.splits)

lemma map_throw_slugs:
  "map_throw (index_entry E d) fs = Inr ms \<Longrightarrow> map slug ms = map slug_of fs"
proof (induction fs arbitrary: ms)
  case Nil
  then show ?case by auto
next
  case (Cons f fs)
  then obtain m ms' where m: "index_entry E d f = Inr m"
    and ms': "map_throw (index_entry E d) fs = Inr ms'" and eq: "ms = m # ms'"
    by (auto split: sum.splits)
  from Cons.IH [OF ms'] index_entry_slug [OF m] eq show ?case by simp
qed

lemma paths_are_index_slugs:
  "getStaticProps_index E = Inr ms \<Longrightarrow> getStaticPaths E = Inr (map slug ms)"
  by (auto simp: getStaticProps_index_def getStaticPaths_def Let_def map_throw_slugs split: sum.splits)

lemma index_throws:
  assumes "readdirSync E (join E (cwd E) (CONTENTS_DIRNAME E)) = Inr filenames"
    and "filename \<in> set filenames"
    and "readFileSync E (join E (join E (cwd E) (CONTENTS_DIRNAME E)) filename) = Inl e"
  shows "\<exists>e'. getStaticProps_index E = Inl e'"
proof -
  have "index_entry E (join E (cwd E) (CONTENTS_DIRNAME E)) filename = Inl e"
    using assms(3) by (simp add: index_entry_def)
  from map_throw_Inl [of filename filenames "index_entry E (join E (cwd E) (CONTENTS_DIRNAME E))" e,
      OF assms(2) this] assms(1) show ?thesis
    by (simp add: getStaticProps_index_def)
qed

lemma slug_throws:
  "readFileSync E (join E (join E (cwd E) (CONTENTS_DIRNAME E)) (s @ ''.md'')) = Inl e
   \<Longrightarrow> getStaticProps_slug E s = Inl e"
  by (simp add: getStaticProps_slug_def)

lemma index_dir_throws:
  "readdirSync E (join E (cwd E) (CONTENTS_DIRNAME E)) = Inl e \<Longrightarrow> getStaticProps_index E = Inl e"
  by (simp add: getStaticProps_index_def)

lemma index_entry_ok:
  "readFileSync E (join E d f) = Inr text \<Longrightarrow> grayMatter E text = Inr (fm, content) \<Longrightarrow>
   index_entry E d f =
     Inr \<lparr>title = fm ''title'', categories = fm ''categories'', dateCreated = fm ''dateCreated'',
          intro = fm ''intro'', useLatex = fm ''useLatex'', slug = slug_of f,
          readTime = countReadingTime E content\<rparr>"
  by (simp add: index_entry_def)

lemma slug_ok:
  "readFileSync E (join E (join E (cwd E) (CONTENTS_DIRNAME E)) (s @ ''.md'')) = Inr text \<Longrightarrow>
   grayMatter E text = Inr (fm, content) \<Longrightarrow> processSync E parse_processor content = Inr html \<Longrightarrow>
   getStaticProps_slug E s =
     Inr \<lparr>metadata = \<lparr>title = fm ''title'', categories = fm ''categories'', dateCreated = fm ''dateCreated'',
          intro = fm ''intro'', useLatex = fm ''useLatex'', slug = s,
          readTime = countReadingTime E content\<rparr>, htmlString = html\<rparr>"
  by (simp add: getStaticProps_slug_def parse_def)

lemma hello_index:
  "getStaticProps_index hello_env =
     Inr [\<lparr>title = Some (YStr ''Hello''), categories = Some (YSeq [YStr ''Go'']),
           dateCreated = Some (YStr ''13 Mar 2021''), intro = None,
           useLatex = Some (YBool False), slug = ''hello'', readTime = ''1 min read''\<rparr>]"
  by (simp add: getStaticProps_index_def hello_env_def memory_env_def index_entry_def
      slug_of_def hello_fields_def)

section \<open>Properties of the statistics handlers\<close>

lemma languages_of_forks: "languages_of (filter (\<lambda>r. \<not> fork r) rs) = languages_of rs"
  by (simp add: languages_of_def)

lemma stars_fold_forks:
  "foldl (\<lambda>a r. if fork r then a else num_add A a (stargazers_count r)) acc (filter (\<lambda>r. \<not> fork r) rs)
   = foldl (\<lambda>a r. if fork r then a else num_add A a (stargazers_count r)) acc rs"
  by (induction rs arbitrary: acc) auto

subsection \<open>insertion sort conforms\<close>

lemma mset_insert_by: "mset (insert_by cmp x ys) = add_mset x (mset ys)"
  by (induction ys) auto

lemma mset_foldl_insert_by:
  "mset (foldl (\<lambda>sorted x. insert_by cmp x sorted) acc xs) = mset acc + mset xs"
  by (induction xs arbitrary: acc) (auto simp: mset_insert_by)

lemma mset_insertion_sort: "mset (insertion_sort cmp xs) = mset xs"
  by (simp add: insertion_sort_def mset_foldl_insert_by)

lemma set_insert_by: "set (insert_by cmp x ys) = insert x (set ys)"
  using mset_insert_by [of cmp x ys, THEN arg_cong, of set_mset] by simp

lemma consistent_subset: "consistent cmp S \<Longrightarrow> T \<subseteq> S \<Longrightarrow> consistent cmp T"
  unfolding consistent_def by (meson subsetD)

lemma consistent_not_both:
  assumes "consistent cmp S" "a \<in> S" "b \<in> S" "cmp a b = Negative"
  shows "cmp b a \<noteq> Negative"
proof
  assume "cmp b a = Negative"
  with assms have "cmp a a = Negative" unfolding consistent_def by blast
  moreover from assms have "cmp a a = Zero" unfolding consistent_def by blast
  ultimately show False by simp
qed

lemma consistent_after:
  assumes c: "consistent cmp S" and m: "x \<in> S" "y \<in> S" "z \<in> S"
    and xy: "cmp x y = Negative" and zy: "cmp z y \<noteq> Negative"
  shows "cmp z x \<noteq> Negative"
proof
  assume "cmp z x = Negative"
  with c m xy have "cmp z y = Negative" unfolding consistent_def by blast
  with zy show False by simp
qed

lemma sorted_insert_by:
  assumes c: "consistent cmp S" and x: "x \<in> S"
  shows "set ys \<subseteq> S \<Longrightarrow> sorted_wrt (\<lambda>a b. cmp b a \<noteq> Negative) ys \<Longrightarrow>
    sorted_wrt (\<lambda>a b. cmp b a \<noteq> Negative) (insert_by cmp x ys)"
proof (induction ys)
  case Nil
  then show ?case by simp
next
  case (Cons y ys)
  show ?case
  proof (cases "cmp x y = Negative")
    case True
    have "cmp z x \<noteq> Negative" if "z \<in> set (y # ys)" for z
    proof (cases "z = y")
      case True
      with consistent_not_both [OF c x _ \<open>cmp x y = Negative\<close>] Cons.prems show ?thesis by simp
    next
      case False
      with that Cons.prems have "z \<in> S" "cmp z y \<noteq> Negative" by auto
      with consistent_after [OF c x _ _ True] Cons.prems show ?thesis by simp
    qed
    with True Cons.prems show ?thesis by simp
  next
    case False
    with Cons show ?thesis by (auto simp: set_insert_by)
  qed
qed

lemma sorted_foldl_insert_by:
  assumes c: "consistent cmp S"
  shows "set acc \<subseteq> S \<Longrightarrow> set xs \<subseteq> S \<Longrightarrow> sorted_wrt (\<lambda>a b. cmp b a \<noteq> Negative) acc \<Longrightarrow>
    sorted_wrt (\<lambda>a b. cmp b a \<noteq> Negative) (foldl (\<lambda>sorted x. insert_by cmp x sorted) acc xs)"
proof (induction xs arbitrary: acc)
  case Nil
  then show ?case by simp
next
  case (Cons x xs)
  have "sorted_wrt (\<lambda>a b. cmp b a \<noteq> Negative) (insert_by cmp x acc)"
    using Cons.prems by (intro sorted_insert_by [OF c]) auto
  moreover have "set (insert_by cmp x acc) \<subseteq> S"
    using Cons.prems by (simp add: set_insert_by)
  ultimately show ?case using Cons.prems by (simp add: Cons.IH)
qed

lemma conforming_insertion_sort: "conforming insertion_sort"
  unfolding conforming_def
proof (intro allI conjI impI)
  fix cmp :: "'a \<Rightarrow> 'a \<Rightarrow> sign" and xs
  show "mset (insertion_sort cmp xs) = mset xs" by (rule mset_insertion_sort)
  assume "consistent cmp (set xs)"
  from sorted_foldl_insert_by [OF this, of "[]" xs]
  show "sorted_wrt (\<lambda>a b. cmp b a \<noteq> Negative) (insertion_sort cmp xs)"
    by (simp add: insertion_sort_def)
qed

lemma map_fst_update:
  "map fst (map (\<lambda>(k, w). if k = key then (k, v) else (k, w)) obj) = map fst obj"
  by (induction obj) auto

lemma map_of_update:
  "map_of (map (\<lambda>(k, w). if k = key then (k, v) else (k, w)) obj) k' =
     (if k' = key then map_option (\<lambda>w. v) (map_of obj k') else map_of obj k')"
  by (induction obj) auto

lemma keys_set_property:
  "map fst (set_property obj key v) =
     (if key = ''__proto__'' \<or> map_of obj key \<noteq> None then map fst obj else map fst obj @ [key])"
  by (simp add: set_property_def map_fst_update del: map_map)

lemma map_of_set_property:
  "map_of (set_property obj key v) k =
     (if key = ''__proto__'' then map_of obj k else if k = key then Some v else map_of obj k)"
  by (auto simp: set_property_def map_of_update map_add_def split: option.splits)

lemma get_property_plain: "plain_key key \<Longrightarrow> get_property obj key = map_option Own (map_of obj key)"
  by (simp add: get_property_def plain_key_def split: option.splits)

lemma get_property_proto: "get_property obj ''__proto__'' \<noteq> None"
  by (simp add: get_property_def split: option.splits)

lemma count_language_proto:
  "property_key l = ''__proto__'' \<Longrightarrow> count_language A n acc l = acc"
  by (simp add: count_language_def Let_def get_property_def set_property_def split: option.splits)

lemma keys_count_language_subset:
  "set (map fst (count_language A n acc l)) \<subseteq> insert (property_key l) (set (map fst acc))"
  unfolding count_language_def Let_def
  by (auto simp: keys_set_property split: option.splits if_splits simp del: set_map)

lemma distinct_set_property:
  "distinct (map fst obj) \<Longrightarrow> distinct (map fst (set_property obj key v))"
  by (auto simp: keys_set_property map_of_eq_None_iff)

lemma distinct_count_language:
  "distinct (map fst acc) \<Longrightarrow> distinct (map fst (count_language A n acc l))"
  unfolding count_language_def Let_def
  by (auto simp: distinct_set_property split: option.splits)

lemma map_of_Some_key: "map_of acc k = Some v \<Longrightarrow> k \<in> set (map fst acc)"
  by (force dest: map_of_SomeD)

lemma keys_count_language_plain:
  "plain_key (property_key l) \<Longrightarrow>
   set (map fst (count_language A n acc l)) = insert (property_key l) (set (map fst acc))"
  unfolding count_language_def Let_def plain_key_def
  by (auto simp: keys_set_property get_property_def map_of_set_property map_of_eq_None_iff
      split: option.splits if_splits simp del: set_map dest: map_of_Some_key)

lemma map_of_count_language_plain:
  "plain_key (property_key l) \<Longrightarrow>
   map_of (count_language A n acc l) k =
     (if k = property_key l
      then Some (plus_number (num_add A)
             (case map_of acc k of None \<Rightarrow> Own (Num (num_zero A)) | Some v \<Rightarrow> Own v)
             (hundred_over A n))
      else map_of acc k)"
  unfolding count_language_def Let_def
  by (auto simp: get_property_plain map_of_set_property plain_key_def split: option.splits)

lemma share_Nil: "share A n v [] k = v"
  by (simp add: share_def)

lemma share_Cons:
  "share A n v (l # ls) k =
     share A n (if property_key l = k then num_add A v (hundred_over A n) else v) ls k"
  by (simp add: share_def)

lemma share_absent: "k \<notin> property_key ` set ls \<Longrightarrow> share A n v ls k = v"
  by (induction ls arbitrary: v) (auto simp: share_Nil share_Cons)

lemma count_language_number:
  assumes p: "plain_key (property_key l)" and a: "all_numbers acc"
  shows "map_of (count_language A n acc l) k =
     (if k = property_key l then Some (Num (num_add A (start A acc k) (hundred_over A n)))
      else map_of acc k)"
proof (cases "k = property_key l")
  case False
  then show ?thesis by (simp add: map_of_count_language_plain [OF p])
next
  case True
  show ?thesis
  proof (cases "map_of acc k")
    case None
    with True show ?thesis by (simp add: map_of_count_language_plain [OF p] start_def)
  next
    case (Some v)
    with a obtain x where "v = Num x" unfolding all_numbers_def by blast
    with Some True show ?thesis by (simp add: map_of_count_language_plain [OF p] start_def)
  qed
qed

lemma all_numbers_count_language:
  assumes p: "plain_key (property_key l)" and a: "all_numbers acc"
  shows "all_numbers (count_language A n acc l)"
  unfolding all_numbers_def
proof (intro allI impI)
  fix k v assume "map_of (count_language A n acc l) k = Some v"
  with count_language_number [OF p a, of A n k] a show "\<exists>x. v = Num x"
    unfolding all_numbers_def by (auto split: if_splits)
qed

lemma start_count_language:
  assumes p: "plain_key (property_key l)" and a: "all_numbers acc"
  shows "start A (count_language A n acc l) k =
     (if k = property_key l then num_add A (start A acc k) (hundred_over A n) else start A acc k)"
  using count_language_number [OF p a, of A n k]
  by (simp add: start_def [of A "count_language A n acc l"]) (simp add: start_def)

lemma foldl_count_language_number:
  "\<forall>l \<in> set ls. plain_key (property_key l) \<Longrightarrow> all_numbers acc \<Longrightarrow>
   map_of (foldl (count_language A n) acc ls) k =
     (if k \<in> property_key ` set ls then Some (Num (share A n (start A acc k) ls k))
      else map_of acc k)"
proof (induction ls arbitrary: acc)
  case Nil
  then show ?case by simp
next
  case (Cons l ls)
  then have p: "plain_key (property_key l)" and ps: "\<forall>l \<in> set ls. plain_key (property_key l)"
    by simp_all
  note a = Cons.prems(2)
  note a' = all_numbers_count_language [OF p a, of A n]
  show ?case
    using Cons.IH [OF ps a']
    by (auto simp: share_Cons share_absent start_count_language [OF p a] count_language_number [OF p a])
qed

lemma all_numbers_foldl:
  "\<forall>l \<in> set ls. plain_key (property_key l) \<Longrightarrow> all_numbers acc \<Longrightarrow>
   all_numbers (foldl (count_language A n) acc ls)"
  by (induction ls arbitrary: acc) (auto simp: all_numbers_count_language)

lemma keys_foldl_subset:
  "set (map fst (foldl (count_language A n) acc ls)) \<subseteq> set (map fst acc) \<union> property_key ` set ls"
proof (induction ls arbitrary: acc)
  case Nil
  then show ?case by simp
next
  case (Cons l ls)
  from Cons.IH [of "count_language A n acc l"] keys_count_language_subset [of A n acc l]
  show ?case by auto
qed

lemma keys_foldl_plain:
  "\<forall>l \<in> set ls. plain_key (property_key l) \<Longrightarrow>
   set (map fst (foldl (count_language A n) acc ls)) = set (map fst acc) \<union> property_key ` set ls"
proof (induction ls arbitrary: acc)
  case Nil
  then show ?case by simp
next
  case (Cons l ls)
  then have p: "plain_key (property_key l)" and ps: "\<forall>l \<in> set ls. plain_key (property_key l)"
    by simp_all
  from Cons.IH [OF ps, of "count_language A n acc l"] keys_count_language_plain [OF p, of A n acc]
  show ?case by auto
qed

lemma distinct_foldl_count:
  "distinct (map fst acc) \<Longrightarrow> distinct (map fst (foldl (count_language A n) acc ls))"
  by (induction ls arbitrary: acc) (auto simp: distinct_count_language)

lemma mset_object_entries: "mset (object_entries obj) = mset obj"
proof -
  have "filter (\<lambda>(k, v). array_index k = None) obj =
      filter (\<lambda>x. \<not> (case x of (k, v) \<Rightarrow> array_index k \<noteq> None)) obj"
    by (rule filter_cong) auto
  then show ?thesis
    by (simp add: object_entries_def)
qed

lemma set_object_entries: "set (object_entries obj) = set obj"
  using mset_object_entries [of obj, THEN arg_cong, of set_mset] by simp

lemma distinct_keys_object_entries:
  "distinct (map fst (object_entries obj)) \<longleftrightarrow> distinct (map fst obj)"
proof -
  have "mset (map fst (object_entries obj)) = mset (map fst obj)"
    by (simp add: mset_object_entries)
  then show ?thesis by (rule mset_eq_imp_distinct_iff)
qed

lemma names_stats_of: "map name (stats_of obj) = map fst (object_entries obj)"
  unfolding stats_of_def by (induction "object_entries obj") (auto simp: case_prod_beta)

lemma in_stats_of:
  assumes "s \<in> set (stats_of obj)"
  shows "(name s, persentase s) \<in> set obj"
proof -
  from assms have "s \<in> (\<lambda>(key, v). \<lparr>name = key, persentase = v\<rparr>) ` set (object_entries obj)"
    unfolding stats_of_def by (simp only: set_map)
  then obtain e where e: "e \<in> set (object_entries obj)"
    and s: "s = (case e of (key, v) \<Rightarrow> \<lparr>name = key, persentase = v\<rparr>)"
    by (rule imageE)
  obtain k v where kv: "e = (k, v)" by (cases e)
  from s kv have "name s = k" "persentase s = v" by simp_all
  with e kv show ?thesis by (simp add: set_object_entries)
qed

lemma body_handler_languages:
  "body (handler_languages A rs) =
     array_sort A compare_persentase
       (stats_of (foldl (count_language A (length (languages_of rs))) [] (languages_of rs)))"
  by (simp add: handler_languages_def Let_def stats_of_def)

lemma conforming_mset: "conforming srt \<Longrightarrow> mset (srt cmp xs) = mset xs"
  unfolding conforming_def by blast

lemma conforming_set: "conforming srt \<Longrightarrow> set (srt cmp xs) = set xs"
  using conforming_mset [of srt cmp xs, THEN arg_cong, of set_mset] by simp

lemma conforming_sorted:
  "conforming srt \<Longrightarrow> consistent cmp (set xs) \<Longrightarrow> sorted_wrt (\<lambda>a b. cmp b a \<noteq> Negative) (srt cmp xs)"
  unfolding conforming_def by blast

lemma compare_numbers:
  "persentase a = Num x \<Longrightarrow> persentase b = Num y \<Longrightarrow>
   compare_persentase a b = (if y < x then Negative else if x < y then Positive else Zero)"
  by (simp add: compare_persentase_def)

lemma consistent_compare_persentase:
  assumes n: "\<forall>s \<in> S. \<exists>x. persentase s = Num x"
  shows "consistent compare_persentase S"
  unfolding consistent_def
proof (intro conjI ballI impI)
  fix a assume "a \<in> S"
  with n obtain x where "persentase a = Num x" by blast
  then show "compare_persentase a a = Zero" by (simp add: compare_numbers)
next
  fix a b assume "a \<in> S" "b \<in> S" and z: "compare_persentase a b = Zero"
  with n obtain x y where "persentase a = Num x" "persentase b = Num y" by blast
  with z show "compare_persentase b a = Zero"
    by (simp add: compare_numbers split: if_splits)
next
  fix a b c assume "a \<in> S" "b \<in> S" "c \<in> S"
    and z: "compare_persentase a b = Zero \<and> compare_persentase b c = Zero"
  with n obtain x y w where "persentase a = Num x" "persentase b = Num y" "persentase c = Num w"
    by blast
  with z show "compare_persentase a c = Zero"
    by (simp add: compare_numbers split: if_splits)
next
  fix a b c assume "a \<in> S" "b \<in> S" "c \<in> S"
    and z: "compare_persentase a b = Negative \<and> compare_persentase b c = Negative"
  with n obtain x y w where "persentase a = Num x" "persentase b = Num y" "persentase c = Num w"
    by blast
  with z show "compare_persentase a c = Negative"
    by (auto simp: compare_numbers split: if_splits)
next
  fix a b c assume "a \<in> S" "b \<in> S" "c \<in> S"
    and z: "compare_persentase a b = Positive \<and> compare_persentase b c = Positive"
  with n obtain x y w where "persentase a = Num x" "persentase b = Num y" "persentase c = Num w"
    by blast
  with z show "compare_persentase a c = Positive"
    by (auto simp: compare_numbers split: if_splits)
qed

lemma languages_of_not_excluded: "l \<in> set (languages_of rs) \<Longrightarrow> \<not> isExcludedLanguage l"
  by (auto simp: languages_of_def)

lemma key_not_excluded:
  "\<not> isExcludedLanguage l \<Longrightarrow> property_key l \<notin> {''HTML'', ''CSS'', ''Jupyter Notebook''}"
  by (cases l) (auto simp: isExcludedLanguage_def)

lemma share_exact:
  "share exact n v ls k = v + real (count_list (map property_key ls) k) * (100 / real n)"
  by (induction ls arbitrary: v) (auto simp: share_Nil share_Cons exact_def algebra_simps add_divide_distrib)

lemma sorted_numbers:
  assumes s: "sorted_wrt (\<lambda>a b. compare_persentase b a \<noteq> Negative) xs"
    and n: "\<forall>s \<in> set xs. \<exists>x. persentase s = Num x"
  shows "sorted_wrt (\<lambda>a b. at_least (persentase a) (persentase b)) xs"
proof (rule sorted_wrt_mono_rel [OF _ s])
  fix a b assume "a \<in> set xs" "b \<in> set xs" and c: "compare_persentase b a \<noteq> Negative"
  with n obtain x y where xy: "persentase a = Num x" "persentase b = Num y" by blast
  with c show "at_least (persentase a) (persentase b)"
    by (simp add: compare_numbers [OF xy(2) xy(1)] at_least_def split: if_splits)
qed

lemma demo_body:
  "body (handler_languages exact demo_repositories) =
     [\<lparr>name = ''Go'', persentase = Num 50\<rparr>, \<lparr>name = ''TypeScript'', persentase = Num 25\<rparr>,
      \<lparr>name = ''null'', persentase = Num 25\<rparr>]"
  by (simp add: handler_languages_def stats_of_def demo_repositories_def languages_of_def
      isExcludedLanguage_def count_language_def get_property_def set_property_def
      inherited_functions_def exact_def Let_def object_entries_def array_index_def is_digit_def
      insertion_sort_def compare_persentase_def)

section \<open>The properties of the specification\<close>

subsection \<open>C2: the chain of the renderer\<close>

text \<open>
  C2, as the code has it. For every markdown text the renderer runs one and the same
  processor, built by a fixed sequence of \<^verbatim>\<open>use\<close> calls without a branch. Its
  plugins are, in this order: parse markdown, GFM, math, conversion to an HTML-like tree,
  syntax highlighting, figures, KaTeX rendering of the math nodes (with the options
  \<open>strict: false\<close> and \<open>colorIsTextColor: true\<close>), inlining of raw HTML, whitespace
  collapsing, serialization. That is the chain of the specification with one more step,
  KaTeX, between the figures and the raw HTML; the only setting is \<open>position: false\<close>.
\<close>

theorem parse_chain:
  "map fst (attachers parse_processor) =
     [remark, gfm, math, remark2rehype, prism, figure, katex, raw, minify, stringify] \<and>
   map fst (attachers parse_processor) = take 6 spec_pipeline @ katex # drop 6 spec_pipeline \<and>
   parse run md =
     run \<lparr>settings = [(''position'', False)],
          attachers =
            [(remark, []), (gfm, []), (math, []), (remark2rehype, []), (prism, []), (figure, []),
             (katex, [(''strict'', False), (''colorIsTextColor'', True)]),
             (raw, []), (minify, []), (stringify, [])]\<rparr> md"
  by (simp add: parse_def parse_processor_def unified_def spec_pipeline_def)

text \<open>
  C2 as stated fails: the plugins of the renderer are not the nine steps the specification
  lists, since the chain has a tenth, the KaTeX step.
\<close>

theorem parse_chain_not_spec_pipeline:
  "map fst (attachers parse_processor) \<noteq> spec_pipeline"
  by (simp add: parse_processor_def unified_def spec_pipeline_def)

subsection \<open>C4: the slug derivation\<close>

text \<open>
  C4, as the code has it. The slug is a function of the file name alone (the same name
  gives the same slug): the name with its first \<open>.md\<close> removed. Deriving again from a slug leaves it unchanged exactly when the
  slug holds no \<open>.md\<close> any more; this is so for every name \<open>base.md\<close> whose base
  holds no \<open>.md\<close>, and then the slug is the base. Both call sites derive the same
  slugs: the routes of the per-post page are the slugs of the index page's metadata.
\<close>

theorem slug_derivation:
  "(filename = filename' \<longrightarrow> slug_of filename = slug_of filename') \<and>
   (slug_of (slug_of filename) = slug_of filename \<longleftrightarrow> \<not> includes_str ''.md'' (slug_of filename)) \<and>
   (\<not> includes_str ''.md'' base \<longrightarrow>
      slug_of (base @ ''.md'') = base \<and> slug_of (slug_of (base @ ''.md'')) = slug_of (base @ ''.md'')) \<and>
   (getStaticProps_index E = Inr ms \<longrightarrow> getStaticPaths E = Inr (map slug ms))"
proof (intro conjI impI)
  assume "filename = filename'"
  then show "slug_of filename = slug_of filename'" by simp
next
  show "slug_of (slug_of filename) = slug_of filename \<longleftrightarrow> \<not> includes_str ''.md'' (slug_of filename)"
    by (rule slug_idem_iff)
next
  assume b: "\<not> includes_str ''.md'' base"
  then show s: "slug_of (base @ ''.md'') = base"
    by (simp add: slug_of_def replace_suffix)
  from b show "slug_of (slug_of (base @ ''.md'')) = slug_of (base @ ''.md'')"
    by (simp add: s) (simp add: slug_of_def replace_absent)
next
  assume "getStaticProps_index E = Inr ms"
  then show "getStaticPaths E = Inr (map slug ms)" by (rule paths_are_index_slugs)
qed

theorem slug_derivation_witness:
  "slug_of ''hello.md'' = ''hello'' \<and> slug_of (slug_of ''hello.md'') = slug_of ''hello.md'' \<and>
   getStaticPaths hello_env = Inr [''hello'']"
proof -
  let ?m = "\<lparr>title = Some (YStr ''Hello''), categories = Some (YSeq [YStr ''Go'']),
           dateCreated = Some (YStr ''13 Mar 2021''), intro = None,
           useLatex = Some (YBool False), slug = ''hello'', readTime = ''1 min read''\<rparr>"
  have b: "\<not> includes_str ''.md'' ''hello''" by simp
  from slug_derivation [of "''hello.md''" "''hello.md''" "''hello''" hello_env "[?m]"] b hello_index
  have "slug_of (''hello'' @ ''.md'') = ''hello'' \<and>
      slug_of (slug_of (''hello'' @ ''.md'')) = slug_of (''hello'' @ ''.md'') \<and>
      getStaticPaths hello_env = Inr (map slug [?m])"
    by blast
  then show ?thesis by (simp add: slug_of_def)
qed

text \<open>
  C4 as stated fails: the derivation is not idempotent. From \<open>a.md.md\<close> it yields
  \<open>a.md\<close>, and from that \<open>a\<close>.
\<close>

theorem slug_of_not_idempotent:
  "slug_of (slug_of ''a.md.md'') \<noteq> slug_of ''a.md.md''"
  by (simp add: slug_of_def)

subsection \<open>C6: an unreadable file\<close>

text \<open>
  C6, as the code has it. If the content directory cannot be listed, or a file that it
  lists cannot be read, the loader of the index page throws: its result is an error and no
  list of metadata, whatever the other files are. The loader of the per-post page reads
  the one file of its slug, and throws the read error if that file cannot be read.
\<close>

theorem unreadable_file_throws:
  "(readdirSync E (join E (cwd E) (CONTENTS_DIRNAME E)) = Inr filenames \<and>
    filename \<in> set filenames \<and>
    readFileSync E (join E (join E (cwd E) (CONTENTS_DIRNAME E)) filename) = Inl e
    \<longrightarrow> (\<exists>e'. getStaticProps_index E = Inl e')) \<and>
   (readdirSync E (join E (cwd E) (CONTENTS_DIRNAME E)) = Inl e
    \<longrightarrow> getStaticProps_index E = Inl e) \<and>
   (readFileSync E (join E (join E (cwd E) (CONTENTS_DIRNAME E)) (s @ ''.md'')) = Inl e
    \<longrightarrow> getStaticProps_slug E s = Inl e)"
  using index_throws [of E filenames filename e] index_dir_throws [of E e] slug_throws [of E s e]
  by blast

theorem unreadable_file_throws_witness:
  "getStaticProps_index broken_env = Inl (ENOENT ''/app/contents/gone.md'') \<and>
   getStaticProps_slug broken_env ''gone'' = Inl (ENOENT ''/app/contents/gone.md'')"
proof -
  let ?e = "ENOENT ''/app/contents/gone.md''"
  have d: "readdirSync broken_env (join broken_env (cwd broken_env) (CONTENTS_DIRNAME broken_env))
      = Inr [''hello.md'', ''gone.md'']"
    by (simp add: broken_env_def memory_env_def)
  have m: "''gone.md'' \<in> set [''hello.md'', ''gone.md'']" by simp
  have r: "readFileSync broken_env
      (join broken_env (join broken_env (cwd broken_env) (CONTENTS_DIRNAME broken_env)) ''gone.md'') = Inl ?e"
    by (simp add: broken_env_def memory_env_def)
  have r': "readFileSync broken_env
      (join broken_env (join broken_env (cwd broken_env) (CONTENTS_DIRNAME broken_env)) (''gone'' @ ''.md'')) = Inl ?e"
    using r by simp
  from unreadable_file_throws [of broken_env "[''hello.md'', ''gone.md'']" "''gone.md''" ?e "''gone''"] d m r r'
  have "(\<exists>e'. getStaticProps_index broken_env = Inl e') \<and> getStaticProps_slug broken_env ''gone'' = Inl ?e"
    by blast
  moreover have "getStaticProps_index broken_env = Inl ?e"
    by (simp add: getStaticProps_index_def broken_env_def memory_env_def index_entry_def
      slug_of_def hello_fields_def)
  ultimately show ?thesis by simp
qed

text \<open>
  C6 as stated fails for the per-post page: with \<open>gone.md\<close> listed in the content
  directory and unreadable, its loader still returns the post \<open>hello\<close>, since it reads
  no file but \<open>hello.md\<close>.
\<close>

theorem unreadable_file_elsewhere:
  "readdirSync broken_env ''/app/contents'' = Inr [''hello.md'', ''gone.md''] \<and>
   readFileSync broken_env ''/app/contents/gone.md'' = Inl (ENOENT ''/app/contents/gone.md'') \<and>
   getStaticProps_slug broken_env ''hello'' =
     Inr \<lparr>metadata =
            \<lparr>title = Some (YStr ''Hello''), categories = Some (YSeq [YStr ''Go'']),
             dateCreated = Some (YStr ''13 Mar 2021''), intro = None,
             useLatex = Some (YBool False), slug = ''hello'', readTime = ''1 min read''\<rparr>,
          htmlString = ''<p>html</p>''\<rparr>"
  by (simp add: getStaticProps_slug_def broken_env_def memory_env_def parse_def hello_fields_def)

subsection \<open>C7: front-matter fields\<close>

text \<open>
  C7, as the code has it. For a file that can be read and whose front matter parses, the
  loaders do not throw (the loader of the per-post page if the renderer does not): every
  schema field of the metadata is what the front-matter object holds under that key,
  \<open>undefined\<close> when the key is missing and the parsed value as it is, well formed or
  not, when the key is present, and \<open>slug\<close> and \<open>readTime\<close> are populated either
  way. The loader of the index page returns the list of these metadata, one per file.
\<close>

theorem front_matter_passed_through:
  "(readFileSync E (join E d filename) = Inr text \<and> grayMatter E text = Inr (fm, content) \<longrightarrow>
      index_entry E d filename =
        Inr \<lparr>title = fm ''title'', categories = fm ''categories'',
             dateCreated = fm ''dateCreated'', intro = fm ''intro'', useLatex = fm ''useLatex'',
             slug = slug_of filename, readTime = countReadingTime E content\<rparr>) \<and>
   (readFileSync E (join E (join E (cwd E) (CONTENTS_DIRNAME E)) (s @ ''.md'')) = Inr text \<and>
    grayMatter E text = Inr (fm, content) \<and> processSync E parse_processor content = Inr html \<longrightarrow>
      getStaticProps_slug E s =
        Inr \<lparr>metadata =
               \<lparr>title = fm ''title'', categories = fm ''categories'',
                dateCreated = fm ''dateCreated'', intro = fm ''intro'', useLatex = fm ''useLatex'',
                slug = s, readTime = countReadingTime E content\<rparr>,
             htmlString = html\<rparr>) \<and>
   (readdirSync E (join E (cwd E) (CONTENTS_DIRNAME E)) = Inr filenames \<and>
    (\<forall>f \<in> set filenames. index_entry E (join E (cwd E) (CONTENTS_DIRNAME E)) f = Inr (g f)) \<longrightarrow>
      getStaticProps_index E = Inr (map g filenames))"
proof (intro conjI impI)
  assume "readFileSync E (join E d filename) = Inr text \<and> grayMatter E text = Inr (fm, content)"
  then show "index_entry E d filename =
        Inr \<lparr>title = fm ''title'', categories = fm ''categories'',
             dateCreated = fm ''dateCreated'', intro = fm ''intro'', useLatex = fm ''useLatex'',
             slug = slug_of filename, readTime = countReadingTime E content\<rparr>"
    by (simp add: index_entry_ok)
next
  assume "readFileSync E (join E (join E (cwd E) (CONTENTS_DIRNAME E)) (s @ ''.md'')) = Inr text \<and>
    grayMatter E text = Inr (fm, content) \<and> processSync E parse_processor content = Inr html"
  then show "getStaticProps_slug E s =
        Inr \<lparr>metadata =
               \<lparr>title = fm ''title'', categories = fm ''categories'',
                dateCreated = fm ''dateCreated'', intro = fm ''intro'', useLatex = fm ''useLatex'',
                slug = s, readTime = countReadingTime E content\<rparr>,
             htmlString = html\<rparr>"
    by (simp add: slug_ok)
next
  assume a: "readdirSync E (join E (cwd E) (CONTENTS_DIRNAME E)) = Inr filenames \<and>
    (\<forall>f \<in> set filenames. index_entry E (join E (cwd E) (CONTENTS_DIRNAME E)) f = Inr (g f))"
  then have "map_throw (index_entry E (join E (cwd E) (CONTENTS_DIRNAME E))) filenames = Inr (map g filenames)"
    by (intro map_throw_Inr) simp
  with a show "getStaticProps_index E = Inr (map g filenames)"
    by (simp add: getStaticProps_index_def)
qed

theorem front_matter_passed_through_witness:
  "index_entry hello_env ''/app/contents'' ''hello.md'' =
     Inr \<lparr>title = Some (YStr ''Hello''), categories = Some (YSeq [YStr ''Go'']),
          dateCreated = Some (YStr ''13 Mar 2021''), intro = None,
          useLatex = Some (YBool False), slug = ''hello'', readTime = ''1 min read''\<rparr> \<and>
   getStaticProps_slug hello_env ''hello'' =
     Inr \<lparr>metadata =
            \<lparr>title = Some (YStr ''Hello''), categories = Some (YSeq [YStr ''Go'']),
             dateCreated = Some (YStr ''13 Mar 2021''), intro = None,
             useLatex = Some (YBool False), slug = ''hello'', readTime = ''1 min read''\<rparr>,
          htmlString = ''<p>html</p>''\<rparr> \<and>
   getStaticProps_index hello_env =
     Inr [\<lparr>title = Some (YStr ''Hello''), categories = Some (YSeq [YStr ''Go'']),
           dateCreated = Some (YStr ''13 Mar 2021''), intro = None,
           useLatex = Some (YBool False), slug = ''hello'', readTime = ''1 min read''\<rparr>]"
proof -
  let ?m = "\<lparr>title = Some (YStr ''Hello''), categories = Some (YSeq [YStr ''Go'']),
          dateCreated = Some (YStr ''13 Mar 2021''), intro = None,
          useLatex = Some (YBool False), slug = ''hello'', readTime = ''1 min read''\<rparr>"
  have dir: "join hello_env (cwd hello_env) (CONTENTS_DIRNAME hello_env) = ''/app/contents''"
    by (simp add: hello_env_def memory_env_def)
  have r1: "readFileSync hello_env (join hello_env ''/app/contents'' ''hello.md'') = Inr ''hello-text''"
    by (simp add: hello_env_def memory_env_def)
  have r2: "readFileSync hello_env
      (join hello_env (join hello_env (cwd hello_env) (CONTENTS_DIRNAME hello_env)) (''hello'' @ ''.md''))
      = Inr ''hello-text''"
    by (simp add: hello_env_def memory_env_def)
  have g: "grayMatter hello_env ''hello-text'' = Inr (map_of hello_fields, ''Hello!'')"
    by (simp add: hello_env_def memory_env_def)
  have p: "processSync hello_env parse_processor ''Hello!'' = Inr ''<p>html</p>''"
    by (simp add: hello_env_def memory_env_def)
  have l: "readdirSync hello_env (join hello_env (cwd hello_env) (CONTENTS_DIRNAME hello_env)) = Inr [''hello.md'']"
    by (simp add: hello_env_def memory_env_def)
  have e: "\<forall>f \<in> set [''hello.md''].
      index_entry hello_env (join hello_env (cwd hello_env) (CONTENTS_DIRNAME hello_env)) f = Inr ((\<lambda>f. ?m) f)"
    by (simp add: hello_env_def memory_env_def index_entry_def slug_of_def hello_fields_def)
  from front_matter_passed_through [of hello_env "''/app/contents''" "''hello.md''" "''hello-text''"
      "map_of hello_fields" "''Hello!''" "''hello''" "''<p>html</p>''" "[''hello.md'']" "\<lambda>f. ?m"]
    r1 r2 g p l e
  have "index_entry hello_env ''/app/contents'' ''hello.md'' =
        Inr \<lparr>title = map_of hello_fields ''title'', categories = map_of hello_fields ''categories'',
             dateCreated = map_of hello_fields ''dateCreated'', intro = map_of hello_fields ''intro'',
             useLatex = map_of hello_fields ''useLatex'',
             slug = slug_of ''hello.md'', readTime = countReadingTime hello_env ''Hello!''\<rparr> \<and>
     getStaticProps_slug hello_env ''hello'' =
        Inr \<lparr>metadata =
               \<lparr>title = map_of hello_fields ''title'', categories = map_of hello_fields ''categories'',
             dateCreated = map_of hello_fields ''dateCreated'', intro = map_of hello_fields ''intro'',
             useLatex = map_of hello_fields ''useLatex'',
                slug = ''hello'', readTime = countReadingTime hello_env ''Hello!''\<rparr>,
             htmlString = ''<p>html</p>''\<rparr> \<and>
     getStaticProps_index hello_env = Inr (map (\<lambda>f. ?m) [''hello.md''])"
    by blast
  then show ?thesis
    by (simp add: hello_fields_def slug_of_def hello_env_def memory_env_def)
qed

text \<open>
  C7 as stated fails for a malformed field: a \<open>useLatex\<close> that is the string
  \<open>yes\<close>, not a boolean, comes out of both loaders as that string, not as
  \<open>undefined\<close>.
\<close>

theorem malformed_field_not_undefined:
  "\<not> well_formed ''useLatex'' (YStr ''yes'') \<and>
   getStaticProps_index malformed_env =
     Inr [\<lparr>title = Some (YStr ''Proof''), categories = None, dateCreated = None, intro = None,
           useLatex = Some (YStr ''yes''), slug = ''latex'', readTime = ''1 min read''\<rparr>] \<and>
   getStaticProps_slug malformed_env ''latex'' =
     Inr \<lparr>metadata =
            \<lparr>title = Some (YStr ''Proof''), categories = None, dateCreated = None, intro = None,
             useLatex = Some (YStr ''yes''), slug = ''latex'', readTime = ''1 min read''\<rparr>,
          htmlString = ''<p>html</p>''\<rparr>"
  by (simp add: getStaticProps_index_def getStaticProps_slug_def malformed_env_def memory_env_def
      index_entry_def slug_of_def parse_def)

subsection \<open>C8: forks\<close>

text \<open>
  C8. Both handlers leave forks out: each returns for a repository list what it returns
  for the list without its forks, and a fork added anywhere in a list, whatever its stars
  and its language, changes neither the summed stars nor the language statistics.
\<close>

theorem forks_contribute_nothing:
  "handler_languages A (filter (\<lambda>r. \<not> fork r) rs) = handler_languages A rs \<and>
   handler_stars A (filter (\<lambda>r. \<not> fork r) rs) = handler_stars A rs \<and>
   handler_languages A (xs @ r\<lparr>fork := True\<rparr> # ys) = handler_languages A (xs @ ys) \<and>
   handler_stars A (xs @ r\<lparr>fork := True\<rparr> # ys) = handler_stars A (xs @ ys)"
proof -
  have l: "languages_of (xs @ r\<lparr>fork := True\<rparr> # ys) = languages_of (xs @ ys)"
    by (simp add: languages_of_def)
  show ?thesis
    by (simp add: handler_languages_def handler_stars_def languages_of_forks stars_fold_forks l)
qed

theorem forks_contribute_nothing_witness:
  "body (handler_stars exact demo_repositories) = 11 \<and>
   body (handler_stars exact (filter (\<lambda>r. \<not> fork r) demo_repositories)) = 11 \<and>
   body (handler_languages exact (filter (\<lambda>r. \<not> fork r) demo_repositories)) =
     [\<lparr>name = ''Go'', persentase = Num 50\<rparr>, \<lparr>name = ''TypeScript'', persentase = Num 25\<rparr>,
      \<lparr>name = ''null'', persentase = Num 25\<rparr>]"
proof -
  have s: "body (handler_stars exact demo_repositories) = 11"
    by (simp add: handler_stars_def demo_repositories_def exact_def)
  from forks_contribute_nothing [of exact demo_repositories] s demo_body show ?thesis
    by (simp only: simp_thms)
qed

subsection \<open>C9: the language statistics\<close>


subsection \<open>X2: the statistics of plain language names\<close>

text \<open>
  X2. With an engine whose sort conforms to the standard, and for a repository list none
  of whose counted languages bears the name of a property that \<^verbatim>\<open>{}\<close> inherits, the
  entries of the language statistics are in non-increasing order of \<open>persentase\<close>;
  their names are pairwise distinct and are the property keys of the counted languages;
  and every \<open>persentase\<close> is a number, the sum of one \<open>100 / total\<close> for each counted
  repository in that language.
\<close>

theorem languages_stats_plain:
  assumes c: "conforming (array_sort A)"
    and p: "\<forall>l \<in> set (languages_of rs). plain_key (property_key l)"
  shows "sorted_wrt (\<lambda>a b. at_least (persentase a) (persentase b)) (body (handler_languages A rs)) \<and>
    distinct (map name (body (handler_languages A rs))) \<and>
    name ` set (body (handler_languages A rs)) = property_key ` set (languages_of rs) \<and>
    (\<forall>s \<in> set (body (handler_languages A rs)).
       persentase s =
         Num (share A (length (languages_of rs)) (num_zero A) (languages_of rs) (name s)))"
proof -
  let ?ls = "languages_of rs"
  let ?obj = "foldl (count_language A (length ?ls)) [] ?ls"
  let ?body = "body (handler_languages A rs)"
  have b: "?body = array_sort A compare_persentase (stats_of ?obj)"
    by (rule body_handler_languages)
  have m: "mset ?body = mset (stats_of ?obj)"
    unfolding b by (rule conforming_mset [OF c])
  have st: "set ?body = set (stats_of ?obj)"
    unfolding b by (rule conforming_set [OF c])
  have an: "all_numbers ?obj"
    by (rule all_numbers_foldl [OF p]) (simp add: all_numbers_def)
  have d: "distinct (map fst ?obj)"
    by (rule distinct_foldl_count) simp
  have v: "persentase s = Num (share A (length ?ls) (num_zero A) ?ls (name s))"
    if "s \<in> set (stats_of ?obj)" for s
  proof -
    from that have i: "(name s, persentase s) \<in> set ?obj" by (rule in_stats_of)
    with d have e: "map_of ?obj (name s) = Some (persentase s)" by simp
    from i have "name s \<in> set (map fst ?obj)" by force
    with keys_foldl_plain [OF p, of A "length ?ls" "[]"]
    have "name s \<in> property_key ` set ?ls" by simp
    with foldl_count_language_number [OF p, of "[]" A "length ?ls" "name s"] e
    show ?thesis by (simp add: all_numbers_def start_def)
  qed
  have nums: "\<forall>s \<in> set (stats_of ?obj). \<exists>x. persentase s = Num x"
    using v by blast
  have "sorted_wrt (\<lambda>a b. compare_persentase b a \<noteq> Negative) ?body"
    unfolding b by (rule conforming_sorted [OF c consistent_compare_persentase [OF nums]])
  moreover have "\<forall>s \<in> set ?body. \<exists>x. persentase s = Num x"
    using nums by (simp only: st)
  ultimately have 1: "sorted_wrt (\<lambda>a b. at_least (persentase a) (persentase b)) ?body"
    by (rule sorted_numbers)
  have "mset (map name ?body) = mset (map name (stats_of ?obj))"
    by (simp only: mset_map m)
  then have "distinct (map name ?body) \<longleftrightarrow> distinct (map name (stats_of ?obj))"
    by (rule mset_eq_imp_distinct_iff)
  with d have 2: "distinct (map name ?body)"
    by (simp only: names_stats_of distinct_keys_object_entries)
  have "name ` set ?body = set (map name (stats_of ?obj))"
    by (simp only: st set_map)
  also have "\<dots> = set (map fst ?obj)"
    by (simp only: names_stats_of set_map set_object_entries)
  also have "\<dots> = property_key ` set ?ls"
    using keys_foldl_plain [OF p, of A "length ?ls" "[]"] by simp
  finally have 3: "name ` set ?body = property_key ` set ?ls" .
  have 4: "\<forall>s \<in> set ?body.
       persentase s = Num (share A (length ?ls) (num_zero A) ?ls (name s))"
    using v by (simp only: st) blast
  show ?thesis by (rule conjI [OF 1 conjI [OF 2 conjI [OF 3 4]]])
qed

theorem languages_stats_plain_witness:
  "conforming (array_sort exact) \<and>
   list_all (\<lambda>l. plain_key (property_key l)) (languages_of demo_repositories) \<and>
   languages_of demo_repositories = [Some ''TypeScript'', None, Some ''Go'', Some ''Go''] \<and>
   body (handler_languages exact demo_repositories) =
     [\<lparr>name = ''Go'', persentase = Num 50\<rparr>, \<lparr>name = ''TypeScript'', persentase = Num 25\<rparr>,
      \<lparr>name = ''null'', persentase = Num 25\<rparr>] \<and>
   sorted_wrt (\<lambda>a b. at_least (persentase a) (persentase b))
     (body (handler_languages exact demo_repositories)) \<and>
   distinct (map name (body (handler_languages exact demo_repositories)))"
proof -
  have c: "conforming (array_sort exact)"
    by (simp add: exact_def conforming_insertion_sort)
  have l: "languages_of demo_repositories = [Some ''TypeScript'', None, Some ''Go'', Some ''Go'']"
    by (simp add: languages_of_def demo_repositories_def isExcludedLanguage_def)
  have p: "\<forall>l \<in> set (languages_of demo_repositories). plain_key (property_key l)"
    unfolding l by (simp add: plain_key_def inherited_functions_def)
  have p': "list_all (\<lambda>l. plain_key (property_key l)) (languages_of demo_repositories)"
    unfolding list_all_iff by (rule p)
  note stats = languages_stats_plain [OF c p]
  have s: "sorted_wrt (\<lambda>a b. at_least (persentase a) (persentase b))
     (body (handler_languages exact demo_repositories))"
    by (rule stats [THEN conjunct1])
  have d: "distinct (map name (body (handler_languages exact demo_repositories)))"
    by (rule stats [THEN conjunct2, THEN conjunct1])
  show ?thesis
    by (rule conjI [OF c conjI [OF p' conjI [OF l conjI [OF demo_body conjI [OF s d]]]]])
qed

subsection \<open>X3: the names of the statistics\<close>

text \<open>
  X3. With an engine whose sort conforms to the standard, for every repository list no
  entry of the language statistics is named \<open>HTML\<close>, \<open>CSS\<close> or
  \<open>Jupyter Notebook\<close>.
\<close>

theorem languages_stats_names:
  "conforming (array_sort A) \<Longrightarrow>
   \<forall>s \<in> set (body (handler_languages A rs)). name s \<notin> {''HTML'', ''CSS'', ''Jupyter Notebook''}"
proof
  let ?ls = "languages_of rs"
  let ?obj = "foldl (count_language A (length ?ls)) [] ?ls"
  assume c: "conforming (array_sort A)"
  fix s assume "s \<in> set (body (handler_languages A rs))"
  then have "s \<in> set (stats_of ?obj)"
    by (simp only: body_handler_languages conforming_set [OF c])
  then have "(name s, persentase s) \<in> set ?obj" by (rule in_stats_of)
  then have "name s \<in> set (map fst ?obj)" by force
  with keys_foldl_subset [of A "length ?ls" "[]" ?ls]
  have "name s \<in> property_key ` set ?ls" by auto
  then obtain l where l: "l \<in> set ?ls" and n: "name s = property_key l"
    by (auto simp only: image_iff)
  have "property_key l \<notin> {''HTML'', ''CSS'', ''Jupyter Notebook''}"
    by (rule key_not_excluded [OF languages_of_not_excluded [OF l]])
  then show "name s \<notin> {''HTML'', ''CSS'', ''Jupyter Notebook''}"
    unfolding n .
qed

theorem languages_stats_names_witness:
  "conforming (array_sort exact) \<and>
   list_all (\<lambda>s. name s \<notin> {''HTML'', ''CSS'', ''Jupyter Notebook''})
     (body (handler_languages exact demo_repositories)) \<and>
   map name (body (handler_languages exact demo_repositories)) = [''Go'', ''TypeScript'', ''null'']"
proof -
  have c: "conforming (array_sort exact)"
    by (simp add: exact_def conforming_insertion_sort)
  have n: "list_all (\<lambda>s. name s \<notin> {''HTML'', ''CSS'', ''Jupyter Notebook''})
     (body (handler_languages exact demo_repositories))"
    unfolding list_all_iff by (rule languages_stats_names [OF c])
  have m: "map name (body (handler_languages exact demo_repositories)) =
      [''Go'', ''TypeScript'', ''null'']"
    by (simp add: demo_body)
  show ?thesis by (rule conjI [OF c conjI [OF n m]])
qed

subsection \<open>C10: the two loaders on one file\<close>

text \<open>
  C10 at a file named \<open>x.mdy.md\<close>. The index page gives it the slug \<open>xy.md\<close>;
  the per-post page, reading the same file, is at the slug \<open>x.mdy\<close> and gives that.
  The route generated for the file is \<open>xy.md\<close>, for which the per-post loader looks
  for \<open>xy.md.md\<close> and throws.
\<close>

theorem loaders_disagree_on_inner_md:
  "getStaticProps_index inner_md_env =
     Inr [\<lparr>title = Some (YStr ''X''), categories = None, dateCreated = None, intro = None,
           useLatex = None, slug = ''xy.md'', readTime = ''1 min read''\<rparr>] \<and>
   getStaticProps_slug inner_md_env ''x.mdy'' =
     Inr \<lparr>metadata =
            \<lparr>title = Some (YStr ''X''), categories = None, dateCreated = None, intro = None,
             useLatex = None, slug = ''x.mdy'', readTime = ''1 min read''\<rparr>,
          htmlString = ''<p>html</p>''\<rparr> \<and>
   getStaticPaths inner_md_env = Inr [''xy.md''] \<and>
   getStaticProps_slug inner_md_env ''xy.md'' = Inl (ENOENT ''/app/contents/xy.md.md'')"
  by (simp add: getStaticProps_index_def getStaticProps_slug_def getStaticPaths_def
      inner_md_env_def memory_env_def index_entry_def slug_of_def parse_def)

text \<open>
  X1. Where the derived slug followed by \<open>.md\<close> is the file name again, the two
  loaders read the same file and compute the same metadata, field by field.
\<close>

theorem loaders_agree:
  "readFileSync E (join E (join E (cwd E) (CONTENTS_DIRNAME E)) filename) = Inr text \<Longrightarrow>
   grayMatter E text = Inr (fm, content) \<Longrightarrow>
   processSync E parse_processor content = Inr html \<Longrightarrow>
   slug_of filename @ ''.md'' = filename \<Longrightarrow>
   \<exists>m. index_entry E (join E (cwd E) (CONTENTS_DIRNAME E)) filename = Inr m \<and>
       getStaticProps_slug E (slug_of filename) = Inr \<lparr>metadata = m, htmlString = html\<rparr>"
  by (simp add: index_entry_ok slug_ok)

theorem loaders_agree_witness:
  "map_sum id metadata (getStaticProps_slug hello_env (slug_of ''hello.md'')) =
     index_entry hello_env (join hello_env (cwd hello_env) (CONTENTS_DIRNAME hello_env)) ''hello.md'' \<and>
   getStaticProps_slug hello_env (slug_of ''hello.md'') =
     Inr \<lparr>metadata =
            \<lparr>title = Some (YStr ''Hello''), categories = Some (YSeq [YStr ''Go'']),
             dateCreated = Some (YStr ''13 Mar 2021''), intro = None,
             useLatex = Some (YBool False), slug = ''hello'', readTime = ''1 min read''\<rparr>,
          htmlString = ''<p>html</p>''\<rparr>"
proof -
  have r: "readFileSync hello_env
      (join hello_env (join hello_env (cwd hello_env) (CONTENTS_DIRNAME hello_env)) ''hello.md'')
      = Inr ''hello-text''"
    by (simp add: hello_env_def memory_env_def)
  have g: "grayMatter hello_env ''hello-text'' = Inr (map_of hello_fields, ''Hello!'')"
    by (simp add: hello_env_def memory_env_def)
  have p: "processSync hello_env parse_processor ''Hello!'' = Inr ''<p>html</p>''"
    by (simp add: hello_env_def memory_env_def)
  have s: "slug_of ''hello.md'' @ ''.md'' = ''hello.md''"
    by (simp add: slug_of_def)
  from loaders_agree [OF r g p s] obtain m where
    m: "index_entry hello_env (join hello_env (cwd hello_env) (CONTENTS_DIRNAME hello_env)) ''hello.md'' = Inr m"
    and ms: "getStaticProps_slug hello_env (slug_of ''hello.md'') = Inr \<lparr>metadata = m, htmlString = ''<p>html</p>''\<rparr>"
    by blast
  have "index_entry hello_env (join hello_env (cwd hello_env) (CONTENTS_DIRNAME hello_env)) ''hello.md'' =
     Inr \<lparr>title = Some (YStr ''Hello''), categories = Some (YSeq [YStr ''Go'']),
             dateCreated = Some (YStr ''13 Mar 2021''), intro = None,
             useLatex = Some (YBool False), slug = ''hello'', readTime = ''1 min read''\<rparr>"
    by (simp add: hello_env_def memory_env_def index_entry_def slug_of_def hello_fields_def)
  with m ms show ?thesis by simp
qed

end

